theory Spec2Isabelle
  imports Complex_Main
begin

section \<open>Numeric values\<close>

text \<open>
  The program computes on NumPy arrays of 64-bit floating-point numbers. A value is a
  finite number, taken as the real number it denotes, an infinity or \<open>NaN\<close>. Zero
  carries no sign.
\<close>

datatype fl = Fin real | PInf | NInf | NaN

text \<open>The absolute value and the comparison \<open>x > y\<close> do not round; a comparison with
  \<open>NaN\<close> is false.\<close>

fun fabs :: "fl \<Rightarrow> fl" where
  "fabs (Fin a) = Fin \<bar>a\<bar>"
| "fabs PInf = PInf"
| "fabs NInf = PInf"
| "fabs NaN = NaN"

fun fgt :: "fl \<Rightarrow> fl \<Rightarrow> bool" where
  "fgt (Fin a) (Fin b) = (b < a)"
| "fgt PInf (Fin b) = True"
| "fgt PInf NInf = True"
| "fgt (Fin a) NInf = True"
| "fgt PInf PInf = False"
| "fgt (Fin a) PInf = False"
| "fgt NInf y = False"
| "fgt NaN y = False"
| "fgt x NaN = False"

section \<open>The arithmetic of the library\<close>

text \<open>
  Sums, differences, products, quotients and square roots are rounded, and a sum of
  many terms depends on the order in which NumPy adds them. Neither is the program's:
  the arithmetic is a parameter of the model, the operations of the library the
  program runs on.
\<close>

text \<open>
  The arrays NumPy sums here are of two kinds: the one-dimensional array of the weights,
  and a column of a matrix (a reduction along \<open>axis=0\<close>). The order of the additions
  may differ between them.
\<close>

datatype layout = Flat | Column

record ops =
  op_add :: "fl \<Rightarrow> fl \<Rightarrow> fl"
  op_sub :: "fl \<Rightarrow> fl \<Rightarrow> fl"
  op_mul :: "fl \<Rightarrow> fl \<Rightarrow> fl"
  op_div :: "fl \<Rightarrow> fl \<Rightarrow> fl"
  op_sqrt :: "fl \<Rightarrow> fl"
  op_sum :: "layout \<Rightarrow> fl list \<Rightarrow> fl"

text \<open>
  What is used of the library are facts of IEEE 754 arithmetic and of \<open>np.sum\<close> that
  hold without regard to rounding: the sum of no term is zero and the sum of one term
  is the term; one is neutral in products and quotients; \<open>x - x\<close> is zero or \<open>NaN\<close>;
  \<open>0 * 0\<close> and the root of zero are zero; \<open>0 / 0\<close> is \<open>NaN\<close>; \<open>NaN\<close> propagates;
  the size of a quotient is the quotient of the sizes; a root is not negative.
\<close>

definition lib_laws :: "ops \<Rightarrow> bool" where
  "lib_laws L =
     ((\<forall>k. op_sum L k [] = Fin 0)
      \<and> (\<forall>k x. op_sum L k [x] = x)
      \<and> (\<forall>x. op_mul L x (Fin 1) = x)
      \<and> (\<forall>x. op_div L x (Fin 1) = x)
      \<and> (\<forall>x. op_sub L x x = Fin 0 \<or> op_sub L x x = NaN)
      \<and> op_mul L (Fin 0) (Fin 0) = Fin 0
      \<and> op_sqrt L (Fin 0) = Fin 0
      \<and> op_div L (Fin 0) (Fin 0) = NaN
      \<and> (\<forall>y. op_mul L NaN y = NaN)
      \<and> (\<forall>y. op_div L NaN y = NaN)
      \<and> op_sqrt L NaN = NaN
      \<and> (\<forall>x y. fabs (op_div L x y) = op_div L (fabs x) (fabs y))
      \<and> (\<forall>x. fabs (op_sqrt L x) = op_sqrt L x))"

text \<open>
  The arithmetic without rounding, adding from the left. It has the facts above, so
  there is a library; it is the arithmetic of the examples, whose numbers are small
  integers that 64-bit arithmetic does not round either.
\<close>

fun fneg :: "fl \<Rightarrow> fl" where
  "fneg (Fin a) = Fin (- a)"
| "fneg PInf = NInf"
| "fneg NInf = PInf"
| "fneg NaN = NaN"

fun fadd :: "fl \<Rightarrow> fl \<Rightarrow> fl" where
  "fadd (Fin a) (Fin b) = Fin (a + b)"
| "fadd (Fin a) PInf = PInf"
| "fadd (Fin a) NInf = NInf"
| "fadd PInf (Fin b) = PInf"
| "fadd NInf (Fin b) = NInf"
| "fadd PInf PInf = PInf"
| "fadd NInf NInf = NInf"
| "fadd PInf NInf = NaN"
| "fadd NInf PInf = NaN"
| "fadd NaN y = NaN"
| "fadd x NaN = NaN"

definition fsub :: "fl \<Rightarrow> fl \<Rightarrow> fl" where
  "fsub x y = fadd x (fneg y)"

definition inf_of_sign :: "real \<Rightarrow> fl" where
  "inf_of_sign a = (if 0 < a then PInf else NInf)"

fun fmul :: "fl \<Rightarrow> fl \<Rightarrow> fl" where
  "fmul (Fin a) (Fin b) = Fin (a * b)"
| "fmul (Fin a) PInf = (if a = 0 then NaN else inf_of_sign a)"
| "fmul (Fin a) NInf = (if a = 0 then NaN else inf_of_sign (- a))"
| "fmul PInf (Fin b) = (if b = 0 then NaN else inf_of_sign b)"
| "fmul NInf (Fin b) = (if b = 0 then NaN else inf_of_sign (- b))"
| "fmul PInf PInf = PInf"
| "fmul NInf NInf = PInf"
| "fmul PInf NInf = NInf"
| "fmul NInf PInf = NInf"
| "fmul NaN y = NaN"
| "fmul x NaN = NaN"

fun fdiv :: "fl \<Rightarrow> fl \<Rightarrow> fl" where
  "fdiv (Fin a) (Fin b) =
     (if b \<noteq> 0 then Fin (a / b) else if a = 0 then NaN else inf_of_sign a)"
| "fdiv (Fin a) PInf = Fin 0"
| "fdiv (Fin a) NInf = Fin 0"
| "fdiv PInf (Fin b) = (if 0 \<le> b then PInf else NInf)"
| "fdiv NInf (Fin b) = (if 0 \<le> b then NInf else PInf)"
| "fdiv PInf PInf = NaN"
| "fdiv NInf NInf = NaN"
| "fdiv PInf NInf = NaN"
| "fdiv NInf PInf = NaN"
| "fdiv NaN y = NaN"
| "fdiv x NaN = NaN"

fun fsqrt :: "fl \<Rightarrow> fl" where
  "fsqrt (Fin a) = (if a < 0 then NaN else Fin (sqrt a))"
| "fsqrt PInf = PInf"
| "fsqrt NInf = NaN"
| "fsqrt NaN = NaN"

fun fsum_from :: "fl \<Rightarrow> fl list \<Rightarrow> fl" where
  "fsum_from acc [] = acc"
| "fsum_from acc (x # xs) = fsum_from (fadd acc x) xs"

definition fsum :: "fl list \<Rightarrow> fl" where
  "fsum xs = (case xs of [] \<Rightarrow> Fin 0 | x # rest \<Rightarrow> fsum_from x rest)"

definition exact_ops :: ops where
  "exact_ops = \<lparr>op_add = fadd, op_sub = fsub, op_mul = fmul, op_div = fdiv,
                 op_sqrt = fsqrt, op_sum = (\<lambda>k. fsum)\<rparr>"

typedef numlib = "{L. lib_laws L}"
proof -
  have m: "fmul x (Fin 1) = x" for x
    by (cases x) (simp_all add: inf_of_sign_def)
  have d: "fdiv x (Fin 1) = x" for x
    by (cases x) simp_all
  have s: "fsub x x = Fin 0 \<or> fsub x x = NaN" for x
    by (cases x) (simp_all add: fsub_def)
  have q: "fabs (fdiv x y) = fdiv (fabs x) (fabs y)" for x y
    by (cases x; cases y) (auto simp: inf_of_sign_def)
  have r: "fabs (fsqrt x) = fsqrt x" for x
    by (cases x) simp_all
  have "lib_laws exact_ops"
    unfolding lib_laws_def exact_ops_def
    by (simp add: fsum_def m d s q r)
  then show ?thesis by blast
qed


definition l_add :: "numlib \<Rightarrow> fl \<Rightarrow> fl \<Rightarrow> fl" where "l_add L = op_add (Rep_numlib L)"
definition l_sub :: "numlib \<Rightarrow> fl \<Rightarrow> fl \<Rightarrow> fl" where "l_sub L = op_sub (Rep_numlib L)"
definition l_mul :: "numlib \<Rightarrow> fl \<Rightarrow> fl \<Rightarrow> fl" where "l_mul L = op_mul (Rep_numlib L)"
definition l_div :: "numlib \<Rightarrow> fl \<Rightarrow> fl \<Rightarrow> fl" where "l_div L = op_div (Rep_numlib L)"
definition l_sqrt :: "numlib \<Rightarrow> fl \<Rightarrow> fl" where "l_sqrt L = op_sqrt (Rep_numlib L)"
definition l_sum :: "numlib \<Rightarrow> layout \<Rightarrow> fl list \<Rightarrow> fl" where "l_sum L = op_sum (Rep_numlib L)"

section \<open>Vectors and matrices\<close>

text \<open>
  The magnetic vectors are the rows of an \<open>N \<times> 3\<close> array, the geo-positions the rows of
  an \<open>N \<times> 4\<close> array. A row is a tuple, a matrix the list of its rows; operations along
  \<open>axis=0\<close> work column by column, and an array of three values broadcasts over the rows.
\<close>

type_synonym vec3 = "fl \<times> fl \<times> fl"
type_synonym vec4 = "fl \<times> fl \<times> fl \<times> fl"

definition c0 :: "vec3 \<Rightarrow> fl" where "c0 v = fst v"
definition c1 :: "vec3 \<Rightarrow> fl" where "c1 v = fst (snd v)"
definition c2 :: "vec3 \<Rightarrow> fl" where "c2 v = snd (snd v)"

definition vmap :: "(fl \<Rightarrow> fl) \<Rightarrow> vec3 \<Rightarrow> vec3" where
  "vmap f v = (f (c0 v), f (c1 v), f (c2 v))"

definition vzip :: "(fl \<Rightarrow> fl \<Rightarrow> fl) \<Rightarrow> vec3 \<Rightarrow> vec3 \<Rightarrow> vec3" where
  "vzip f u v = (f (c0 u) (c0 v), f (c1 u) (c1 v), f (c2 u) (c2 v))"

text \<open>A function of one column, applied to each of the three columns (\<open>axis=0\<close>).\<close>

definition axis0 :: "(fl list \<Rightarrow> fl) \<Rightarrow> vec3 list \<Rightarrow> vec3" where
  "axis0 f d = (f (map c0 d), f (map c1 d), f (map c2 d))"

section \<open>The numeric core\<close>

text \<open>
  \<open>np.mean\<close> and \<open>np.std\<close> of one column: the sum divided by the number of rows, and
  the root of the mean of the squared deviations (the population standard deviation).
\<close>

definition np_mean :: "numlib \<Rightarrow> fl list \<Rightarrow> fl" where
  "np_mean L xs = l_div L (l_sum L Column xs) (Fin (real (length xs)))"

definition np_std :: "numlib \<Rightarrow> fl list \<Rightarrow> fl" where
  "np_std L xs =
     (let m = np_mean L xs
      in l_sqrt L (np_mean L (map (\<lambda>x. l_mul L (l_sub L x m) (l_sub L x m)) xs)))"

definition default_threshold :: fl where
  "default_threshold = Fin 3"

text \<open>
  \<^verbatim>\<open>z = np.abs((data - np.mean(data, axis=0)) / np.std(data, axis=0))\<close>
  \<^verbatim>\<open>outlier_mask = (z > threshold).any(axis=1)\<close>
\<close>

definition detect_outliers_zscore :: "numlib \<Rightarrow> vec3 list \<Rightarrow> fl \<Rightarrow> bool list" where
  "detect_outliers_zscore L data threshold =
     (let mu = axis0 (np_mean L) data;
          sd = axis0 (np_std L) data;
          z = map (\<lambda>row. vmap fabs (vzip (l_div L) (vzip (l_sub L) row mu) sd)) data
      in map (\<lambda>zr. fgt (c0 zr) threshold \<or> fgt (c1 zr) threshold \<or> fgt (c2 zr) threshold) z)"

text \<open>The classes of the exceptions the program can meet.\<close>

datatype pyclass = ValueError | IndexError | ZeroDivisionError | IOError

text \<open>
  \<open>np.average(data, axis=0, weights=w)\<close> with one-dimensional weights: the weights must be
  as many as the rows, their sum must not be zero, and the result is the sum of the
  weighted rows divided by the sum of the weights (the weights are first broadcast to a
  column, and both sums run along \<open>axis=0\<close>).
\<close>

definition np_average :: "numlib \<Rightarrow> vec3 list \<Rightarrow> fl list \<Rightarrow> pyclass + vec3" where
  "np_average L data w =
     (if length w \<noteq> length data then Inl ValueError
      else let scl = l_sum L Column w
           in if scl = Fin 0 then Inl ZeroDivisionError
              else Inr (axis0 (\<lambda>col. l_div L (l_sum L Column (map2 (l_mul L) col w)) scl) data))"

text \<open>
  \<^verbatim>\<open>if weights is None: weights = np.ones(data.shape[0])\<close>
  \<^verbatim>\<open>weights = weights / np.sum(weights)\<close>
  \<^verbatim>\<open>return np.average(data, axis=0, weights=weights)\<close>
\<close>

definition weighted_average :: "numlib \<Rightarrow> vec3 list \<Rightarrow> fl list option \<Rightarrow> pyclass + vec3" where
  "weighted_average L data weights =
     (let w = (case weights of None \<Rightarrow> replicate (length data) (Fin 1) | Some ws \<Rightarrow> ws);
          w' = map (\<lambda>x. l_div L x (l_sum L Flat w)) w
      in np_average L data w')"

definition default_factor :: fl where
  "default_factor = Fin 1"

text \<open>\<^verbatim>\<open>return main_vec + factor * (aux_mean - main_vec)\<close>\<close>

definition correct_main_data :: "numlib \<Rightarrow> vec3 list \<Rightarrow> vec3 \<Rightarrow> fl \<Rightarrow> vec3 list" where
  "correct_main_data L main_vec aux_mean factor =
     map (\<lambda>row. vzip (l_add L) row (vmap (l_mul L factor) (vzip (l_sub L) aux_mean row))) main_vec"

section \<open>The texts of the program\<close>

text \<open>
  The labels and messages of the program are Chinese; a string of the model is the
  UTF-8 encoding of the program's string, byte by byte. Each is given with a translation.
\<close>

text \<open>"Longitude, in degrees"\<close>

definition f_lon :: string where
  "f_lon =
     [CHR 0xE7, CHR 0xBB, CHR 0x8F, CHR 0xE5, CHR 0xBA, CHR 0xA6] @ ''('' @ [CHR 0xC2,
      CHR 0xB0] @ '')''"

text \<open>"Latitude, in degrees"\<close>

definition f_lat :: string where
  "f_lat =
     [CHR 0xE7, CHR 0xBA, CHR 0xAC, CHR 0xE5, CHR 0xBA, CHR 0xA6] @ ''('' @ [CHR 0xC2,
      CHR 0xB0] @ '')''"

text \<open>"Vertical depth, in metres"\<close>

definition f_depth :: string where
  "f_depth =
     [CHR 0xE5, CHR 0x9E, CHR 0x82, CHR 0xE5, CHR 0x90, CHR 0x91, CHR 0xE6, CHR 0xB7, CHR 0xB1,
      CHR 0xE5, CHR 0xBA, CHR 0xA6] @ ''(m)''"

text \<open>"Wellhead elevation, in metres"\<close>

definition f_elev :: string where
  "f_elev =
     [CHR 0xE4, CHR 0xBA, CHR 0x95, CHR 0xE5, CHR 0x8F, CHR 0xA3, CHR 0xE6, CHR 0xB5, CHR 0xB7,
      CHR 0xE6, CHR 0x8B, CHR 0x94] @ ''(m)''"

text \<open>"X component, in nanotesla"\<close>

definition f_x :: string where
  "f_x =
     ''X'' @ [CHR 0xE8, CHR 0xBD, CHR 0xB4, CHR 0xE5, CHR 0x88, CHR 0x86, CHR 0xE9, CHR 0x87,
      CHR 0x8F] @ ''(nT)''"

text \<open>"Y component, in nanotesla"\<close>

definition f_y :: string where
  "f_y =
     ''Y'' @ [CHR 0xE8, CHR 0xBD, CHR 0xB4, CHR 0xE5, CHR 0x88, CHR 0x86, CHR 0xE9, CHR 0x87,
      CHR 0x8F] @ ''(nT)''"

text \<open>"Z component, in nanotesla"\<close>

definition f_z :: string where
  "f_z =
     ''Z'' @ [CHR 0xE8, CHR 0xBD, CHR 0xB4, CHR 0xE5, CHR 0x88, CHR 0x86, CHR 0xE9, CHR 0x87,
      CHR 0x8F] @ ''(nT)''"

text \<open>"Main data"\<close>

definition name_main :: string where
  "name_main =
     [CHR 0xE4, CHR 0xB8, CHR 0xBB, CHR 0xE6, CHR 0x95, CHR 0xB0, CHR 0xE6, CHR 0x8D, CHR 0xAE]"

text \<open>"Auxiliary data"\<close>

definition name_aux :: string where
  "name_aux =
     [CHR 0xE8, CHR 0xBE, CHR 0x85, CHR 0xE5, CHR 0x8A, CHR 0xA9, CHR 0xE6, CHR 0x95, CHR 0xB0,
      CHR 0xE6, CHR 0x8D, CHR 0xAE]"

text \<open>"Corrected main data"\<close>

definition name_corrected :: string where
  "name_corrected =
     [CHR 0xE4, CHR 0xBF, CHR 0xAE, CHR 0xE6, CHR 0xAD, CHR 0xA3, CHR 0xE5, CHR 0x90, CHR 0x8E,
      CHR 0xE4, CHR 0xB8, CHR 0xBB, CHR 0xE6, CHR 0x95, CHR 0xB0, CHR 0xE6, CHR 0x8D, CHR 0xAE]"

text \<open>"Is missing the column: "\<close>

definition txt_missing_col :: string where
  "txt_missing_col =
     [CHR 0xE7, CHR 0xBC, CHR 0xBA, CHR 0xE5, CHR 0xB0, CHR 0x91, CHR 0xE5, CHR 0x88,
      CHR 0x97] @ '': ''"

text \<open>"Reading the Excel file failed:"\<close>

definition txt_read_failed :: string where
  "txt_read_failed =
     [CHR 0xE8, CHR 0xAF, CHR 0xBB, CHR 0xE5, CHR 0x8F, CHR 0x96] @ ''Excel'' @ [CHR 0xE5,
      CHR 0xA4, CHR 0xB1, CHR 0xE8, CHR 0xB4, CHR 0xA5] @ '':'' @ [CHR 0x0A]"

text \<open>"Error"\<close>

definition txt_error_title :: string where
  "txt_error_title =
     [CHR 0xE9, CHR 0x94, CHR 0x99, CHR 0xE8, CHR 0xAF, CHR 0xAF]"

text \<open>"Excel loaded: "\<close>

definition txt_loaded :: string where
  "txt_loaded =
     [CHR 0xE5, CHR 0xB7, CHR 0xB2, CHR 0xE5, CHR 0x8A, CHR 0xA0, CHR 0xE8, CHR 0xBD,
      CHR 0xBD] @ ''Excel: ''"

text \<open>"Rows, "\<close>

definition txt_rows_sep :: string where
  "txt_rows_sep =
     [CHR 0xE8, CHR 0xA1, CHR 0x8C, CHR 0xEF, CHR 0xBC, CHR 0x8C]"

text \<open>"Rows"\<close>

definition txt_rows_end :: string where
  "txt_rows_end =
     [CHR 0xE8, CHR 0xA1, CHR 0x8C]"

text \<open>"[INFO] Excel loaded successfully: "\<close>

definition txt_load_ok :: string where
  "txt_load_ok =
     ''[INFO] Excel'' @ [CHR 0xE5, CHR 0x8A, CHR 0xA0, CHR 0xE8, CHR 0xBD, CHR 0xBD, CHR 0xE6,
      CHR 0x88, CHR 0x90, CHR 0xE5, CHR 0x8A, CHR 0x9F, CHR 0xEF, CHR 0xBC, CHR 0x9A]"

text \<open>"Please fill in all magnetic components of the main and auxiliary data"\<close>

definition lbl_incomplete :: string where
  "lbl_incomplete =
     [CHR 0xE8, CHR 0xAF, CHR 0xB7, CHR 0xE5, CHR 0xA1, CHR 0xAB, CHR 0xE5, CHR 0x86, CHR 0x99,
      CHR 0xE4, CHR 0xB8, CHR 0xBB, CHR 0xE6, CHR 0x95, CHR 0xB0, CHR 0xE6, CHR 0x8D, CHR 0xAE,
      CHR 0xE5, CHR 0x92, CHR 0x8C, CHR 0xE8, CHR 0xBE, CHR 0x85, CHR 0xE5, CHR 0x8A, CHR 0xA9,
      CHR 0xE6, CHR 0x95, CHR 0xB0, CHR 0xE6, CHR 0x8D, CHR 0xAE, CHR 0xE7, CHR 0x9A, CHR 0x84,
      CHR 0xE6, CHR 0x89, CHR 0x80, CHR 0xE6, CHR 0x9C, CHR 0x89, CHR 0xE7, CHR 0xA3, CHR 0x81,
      CHR 0xE5, CHR 0x9C, CHR 0xBA, CHR 0xE5, CHR 0x88, CHR 0x86, CHR 0xE9, CHR 0x87, CHR 0x8F]"

text \<open>"[WARN] the data are incomplete, nothing can be computed."\<close>

definition warn_incomplete :: string where
  "warn_incomplete =
     ''[WARN] '' @ [CHR 0xE6, CHR 0x95, CHR 0xB0, CHR 0xE6, CHR 0x8D, CHR 0xAE, CHR 0xE4,
      CHR 0xB8, CHR 0x8D, CHR 0xE5, CHR 0xAE, CHR 0x8C, CHR 0xE6, CHR 0x95, CHR 0xB4, CHR 0xEF,
      CHR 0xBC, CHR 0x8C, CHR 0xE6, CHR 0x97, CHR 0xA0, CHR 0xE6, CHR 0xB3, CHR 0x95, CHR 0xE8,
      CHR 0xAE, CHR 0xA1, CHR 0xE7, CHR 0xAE, CHR 0x97, CHR 0xE3, CHR 0x80, CHR 0x82, CHR 0x0A]"

text \<open>"The auxiliary data are empty"\<close>

definition lbl_aux_empty :: string where
  "lbl_aux_empty =
     [CHR 0xE8, CHR 0xBE, CHR 0x85, CHR 0xE5, CHR 0x8A, CHR 0xA9, CHR 0xE6, CHR 0x95, CHR 0xB0,
      CHR 0xE6, CHR 0x8D, CHR 0xAE, CHR 0xE4, CHR 0xB8, CHR 0xBA, CHR 0xE7, CHR 0xA9, CHR 0xBA]"

text \<open>"[WARN] the auxiliary data are empty."\<close>

definition warn_aux_empty :: string where
  "warn_aux_empty =
     ''[WARN] '' @ [CHR 0xE8, CHR 0xBE, CHR 0x85, CHR 0xE5, CHR 0x8A, CHR 0xA9, CHR 0xE6,
      CHR 0x95, CHR 0xB0, CHR 0xE6, CHR 0x8D, CHR 0xAE, CHR 0xE4, CHR 0xB8, CHR 0xBA, CHR 0xE7,
      CHR 0xA9, CHR 0xBA, CHR 0xE3, CHR 0x80, CHR 0x82, CHR 0x0A]"

text \<open>"[INFO] number of valid auxiliary points: "\<close>

definition info_count :: string where
  "info_count =
     ''[INFO] '' @ [CHR 0xE6, CHR 0x9C, CHR 0x89, CHR 0xE6, CHR 0x95, CHR 0x88, CHR 0xE8,
      CHR 0xBE, CHR 0x85, CHR 0xE5, CHR 0x8A, CHR 0xA9, CHR 0xE6, CHR 0x95, CHR 0xB0, CHR 0xE6,
      CHR 0x8D, CHR 0xAE, CHR 0xE7, CHR 0x82, CHR 0xB9, CHR 0xE6, CHR 0x95, CHR 0xB0, CHR 0xEF,
      CHR 0xBC, CHR 0x9A]"

text \<open>"[INFO] mean of the auxiliary data: "\<close>

definition info_mean :: string where
  "info_mean =
     ''[INFO] '' @ [CHR 0xE8, CHR 0xBE, CHR 0x85, CHR 0xE5, CHR 0x8A, CHR 0xA9, CHR 0xE6,
      CHR 0x95, CHR 0xB0, CHR 0xE6, CHR 0x8D, CHR 0xAE, CHR 0xE5, CHR 0x9D, CHR 0x87, CHR 0xE5,
      CHR 0x80, CHR 0xBC, CHR 0xEF, CHR 0xBC, CHR 0x9A]"

text \<open>"[INFO] first row of the corrected main data: "\<close>

definition info_first :: string where
  "info_first =
     ''[INFO] '' @ [CHR 0xE4, CHR 0xBF, CHR 0xAE, CHR 0xE6, CHR 0xAD, CHR 0xA3, CHR 0xE5,
      CHR 0x90, CHR 0x8E, CHR 0xE4, CHR 0xB8, CHR 0xBB, CHR 0xE6, CHR 0x95, CHR 0xB0, CHR 0xE6,
      CHR 0x8D, CHR 0xAE, CHR 0xE9, CHR 0xA6, CHR 0x96, CHR 0xE8, CHR 0xA1, CHR 0x8C, CHR 0xEF,
      CHR 0xBC, CHR 0x9A]"

text \<open>"[WARN] the corrected main data are empty."\<close>

definition warn_corrected_empty :: string where
  "warn_corrected_empty =
     ''[WARN] '' @ [CHR 0xE4, CHR 0xBF, CHR 0xAE, CHR 0xE6, CHR 0xAD, CHR 0xA3, CHR 0xE5,
      CHR 0x90, CHR 0x8E, CHR 0xE4, CHR 0xB8, CHR 0xBB, CHR 0xE6, CHR 0x95, CHR 0xB0, CHR 0xE6,
      CHR 0x8D, CHR 0xAE, CHR 0xE4, CHR 0xB8, CHR 0xBA, CHR 0xE7, CHR 0xA9, CHR 0xBA, CHR 0xE3,
      CHR 0x80, CHR 0x82, CHR 0x0A]"

text \<open>"Correction and visualisation done."\<close>

definition lbl_done :: string where
  "lbl_done =
     [CHR 0xE4, CHR 0xBF, CHR 0xAE, CHR 0xE6, CHR 0xAD, CHR 0xA3, CHR 0xE4, CHR 0xB8, CHR 0x8E,
      CHR 0xE5, CHR 0x8F, CHR 0xAF, CHR 0xE8, CHR 0xA7, CHR 0x86, CHR 0xE5, CHR 0x8C, CHR 0x96,
      CHR 0xE5, CHR 0xAE, CHR 0x8C, CHR 0xE6, CHR 0x88, CHR 0x90, CHR 0xE3, CHR 0x80, CHR 0x82]"

text \<open>"[INFO] the visualisation was updated."\<close>

definition info_updated :: string where
  "info_updated =
     ''[INFO] '' @ [CHR 0xE5, CHR 0x8F, CHR 0xAF, CHR 0xE8, CHR 0xA7, CHR 0x86, CHR 0xE5,
      CHR 0x8C, CHR 0x96, CHR 0xE5, CHR 0xB7, CHR 0xB2, CHR 0xE6, CHR 0x9B, CHR 0xB4, CHR 0xE6,
      CHR 0x96, CHR 0xB0, CHR 0xE3, CHR 0x80, CHR 0x82, CHR 0x0A]"

section \<open>Tables\<close>

text \<open>
  Both tables of the window have the seven columns of \<open>FIELDS\<close>, in this order: the
  window creates them so, \<open>load_excel\<close> replaces them by the columns \<open>FIELDS\<close> of a sheet,
  and rows are only ever appended. A row is therefore a value with seven cells. A cell
  of a table widget holds an item with its text, or no item.
\<close>

datatype 'c row = Row (r_lon: 'c) (r_lat: 'c) (r_depth: 'c) (r_elev: 'c) (r_x: 'c) (r_y: 'c) (r_z: 'c)

type_synonym grid = "string option row list"
type_synonym dataframe = "fl row list"

definition FIELDS :: "string list" where
  "FIELDS = [f_lon, f_lat, f_depth, f_elev, f_x, f_y, f_z]"

definition VECTOR_FIELDS :: "string list" where
  "VECTOR_FIELDS = [f_x, f_y, f_z]"

text \<open>\<^verbatim>\<open>value = item.text() if item else ""\<close>\<close>

definition item_text :: "string option \<Rightarrow> string" where
  "item_text item = (case item of None \<Rightarrow> '''' | Some t \<Rightarrow> t)"

text \<open>
  \<open>table_to_dataframe\<close>: the texts of the cells, every column of \<open>FIELDS\<close> coerced by
  \<open>pd.to_numeric(..., errors='coerce')\<close>. The parser is pandas' own and is a parameter of
  the model: it maps a text to a number, and a text it cannot read to \<open>NaN\<close>.
\<close>

definition table_to_dataframe :: "(string \<Rightarrow> fl) \<Rightarrow> grid \<Rightarrow> dataframe" where
  "table_to_dataframe to_numeric table = map (map_row (\<lambda>item. to_numeric (item_text item))) table"

text \<open>
  \<open>dataframe_to_table\<close>: every value as the text \<open>str\<close> gives it (Python's own rendering,
  a parameter of the model), one item per cell.
\<close>

definition dataframe_to_table :: "('v \<Rightarrow> string) \<Rightarrow> 'v row list \<Rightarrow> grid" where
  "dataframe_to_table str_of df = map (map_row (\<lambda>v. Some (str_of v))) df"

text \<open>\<open>df[VECTOR_FIELDS]\<close> and the four position columns, row by row.\<close>

definition vector_fields :: "fl row \<Rightarrow> vec3" where
  "vector_fields r = (r_x r, r_y r, r_z r)"

definition geo_fields :: "fl row \<Rightarrow> vec4" where
  "geo_fields r = (r_lon r, r_lat r, r_depth r, r_elev r)"

text \<open>\<open>dropna()\<close>: the rows without a missing value, in their order.\<close>

definition complete3 :: "vec3 \<Rightarrow> bool" where
  "complete3 v = (c0 v \<noteq> NaN \<and> c1 v \<noteq> NaN \<and> c2 v \<noteq> NaN)"

definition complete4 :: "vec4 \<Rightarrow> bool" where
  "complete4 g = (fst g \<noteq> NaN \<and> fst (snd g) \<noteq> NaN \<and> fst (snd (snd g)) \<noteq> NaN
                   \<and> snd (snd (snd g)) \<noteq> NaN)"

definition vec_values :: "dataframe \<Rightarrow> vec3 list" where
  "vec_values df = filter complete3 (map vector_fields df)"

definition geo_values :: "dataframe \<Rightarrow> vec4 list" where
  "geo_values df = filter complete4 (map geo_fields df)"

text \<open>
  Indexing an array by a boolean mask: the rows where the mask is true. NumPy raises
  \<open>IndexError\<close> when the mask is not as long as the array.
\<close>

definition bool_index :: "'a list \<Rightarrow> bool list \<Rightarrow> pyclass + 'a list" where
  "bool_index xs sel =
     (if length sel \<noteq> length xs then Inl IndexError
      else Inr (map fst (filter snd (zip xs sel))))"

section \<open>The window\<close>

text \<open>
  A text the program shows is a sequence of pieces: literal text, and the values an
  f-string interpolates (how Python prints a number or an array is not modelled).
\<close>

datatype piece =
    Lit string
  | Shown_nat nat
  | Shown_vec vec3
  | Traceback pyclass string

type_synonym msg = "piece list"

text \<open>One \<open>ax.quiver\<close> call: its colour, its label, the origins and the vectors it is given.\<close>

datatype quiver = Quiver (q_color: string) (q_label: string)
  (q_origins: "(fl \<times> fl \<times> fl) list") (q_vectors: "vec3 list")

text \<open>
  The state of the window that loading and processing read or change: the two tables,
  the text of the label, what was written to the console stream, whether the console is
  shown, the arrows of the figure as last drawn, and the message boxes shown.
\<close>

record app =
  table_main :: grid
  table_aux :: grid
  label_text :: msg
  console :: "msg list"
  console_shown :: bool
  figure :: "quiver list"
  message_boxes :: "(string \<times> string) list"

definition show_console :: "app \<Rightarrow> app" where
  "show_console s = (if \<not> console_shown s then s\<lparr>console_shown := True\<rparr> else s)"

definition console_write :: "msg \<Rightarrow> app \<Rightarrow> app" where
  "console_write t s = s\<lparr>console := console s @ [t]\<rparr>"

definition set_label :: "msg \<Rightarrow> app \<Rightarrow> app" where
  "set_label t s = s\<lparr>label_text := t\<rparr>"

definition empty_row :: "string option row" where
  "empty_row = Row None None None None None None None"

definition add_main_row :: "app \<Rightarrow> app" where
  "add_main_row s = s\<lparr>table_main := table_main s @ [empty_row]\<rparr>"

definition add_aux_row :: "app \<Rightarrow> app" where
  "add_aux_row s = s\<lparr>table_aux := table_aux s @ [empty_row]\<rparr>"

text \<open>
  "Data format: longitude, latitude, vertical depth, wellhead elevation, X, Y and Z
  component. Enter the data by hand, or read them from Excel."
\<close>

definition lbl_format :: string where
  "lbl_format =
     [CHR 0xE6, CHR 0x95, CHR 0xB0, CHR 0xE6, CHR 0x8D, CHR 0xAE, CHR 0xE6, CHR 0xA0, CHR 0xBC,
      CHR 0xE5, CHR 0xBC, CHR 0x8F, CHR 0xEF, CHR 0xBC, CHR 0x9A, CHR 0xE7, CHR 0xBB, CHR 0x8F,
      CHR 0xE5, CHR 0xBA, CHR 0xA6] @ ''('' @ [CHR 0xC2, CHR 0xB0] @ '')'' @ [CHR 0xE3,
      CHR 0x80, CHR 0x81, CHR 0xE7, CHR 0xBA, CHR 0xAC, CHR 0xE5, CHR 0xBA,
      CHR 0xA6] @ ''('' @ [CHR 0xC2, CHR 0xB0] @ '')'' @ [CHR 0xE3, CHR 0x80, CHR 0x81,
      CHR 0xE5, CHR 0x9E, CHR 0x82, CHR 0xE5, CHR 0x90, CHR 0x91, CHR 0xE6, CHR 0xB7, CHR 0xB1,
      CHR 0xE5, CHR 0xBA, CHR 0xA6] @ ''(m)'' @ [CHR 0xE3, CHR 0x80, CHR 0x81, CHR 0xE4,
      CHR 0xBA, CHR 0x95, CHR 0xE5, CHR 0x8F, CHR 0xA3, CHR 0xE6, CHR 0xB5, CHR 0xB7, CHR 0xE6,
      CHR 0x8B, CHR 0x94] @ ''(m)'' @ [CHR 0xE3, CHR 0x80, CHR 0x81] @ ''X'' @ [CHR 0xE8,
      CHR 0xBD, CHR 0xB4, CHR 0xE5, CHR 0x88, CHR 0x86, CHR 0xE9, CHR 0x87,
      CHR 0x8F] @ ''(nT)'' @ [CHR 0xE3, CHR 0x80, CHR 0x81] @ ''Y'' @ [CHR 0xE8, CHR 0xBD,
      CHR 0xB4, CHR 0xE5, CHR 0x88, CHR 0x86, CHR 0xE9, CHR 0x87,
      CHR 0x8F] @ ''(nT)'' @ [CHR 0xE3, CHR 0x80, CHR 0x81] @ ''Z'' @ [CHR 0xE8, CHR 0xBD,
      CHR 0xB4, CHR 0xE5, CHR 0x88, CHR 0x86, CHR 0xE9, CHR 0x87,
      CHR 0x8F] @ ''(nT)'' @ [CHR 0x0A, CHR 0xE5, CHR 0x8F, CHR 0xAF, CHR 0xE6, CHR 0x89,
      CHR 0x8B, CHR 0xE5, CHR 0x8A, CHR 0xA8, CHR 0xE8, CHR 0xBE, CHR 0x93, CHR 0xE5, CHR 0x85,
      CHR 0xA5, CHR 0xE6, CHR 0x95, CHR 0xB0, CHR 0xE6, CHR 0x8D, CHR 0xAE, CHR 0xEF, CHR 0xBC,
      CHR 0x8C, CHR 0xE6, CHR 0x88, CHR 0x96, CHR 0xE4, CHR 0xBB,
      CHR 0x8E] @ ''Excel'' @ [CHR 0xE8, CHR 0xAF, CHR 0xBB, CHR 0xE5, CHR 0x8F, CHR 0x96,
      CHR 0xE3, CHR 0x80, CHR 0x82]"

text \<open>
  The window as \<open>__init__\<close> leaves it: each table with one row of seven cells without
  items, the label with the format of the data, the console hidden, nothing drawn.
\<close>

definition initial_app :: app where
  "initial_app = \<lparr>table_main = [empty_row], table_aux = [empty_row], label_text = [Lit lbl_format],
     console = [], console_shown = False, figure = [], message_boxes = []\<rparr>"


section \<open>The pipeline\<close>

text \<open>
  The values a run of \<open>process_and_plot\<close> computes are local to it; the model returns them
  beside the window, with the numeric functions the run called, in the order of the calls.
\<close>

datatype numcall = DetectOutliers | WeightedAverage | CorrectMainData

record locals =
  main_vec :: "vec3 list"
  aux_vec :: "vec3 list"
  main_geo :: "vec4 list"
  aux_geo :: "vec4 list"
  aux_valid :: "vec3 list"
  aux_geo_valid :: "vec4 list"
  aux_mean :: vec3
  main_corrected :: "vec3 list"

text \<open>
  A run returns at a guard, returns at its end, or is left by an exception that nothing
  catches; an exception of the drawing comes after the values were computed.
\<close>

datatype outcome = Aborted | Raised pyclass "locals option" | Completed locals

record run =
  app_after :: app
  calls :: "numcall list"
  outcome :: outcome

text \<open>The values a run computed, whether or not the drawing went through.\<close>

definition computed :: "run \<Rightarrow> locals option" where
  "computed r =
     (case outcome r of Aborted \<Rightarrow> None | Raised e l \<Rightarrow> l | Completed l \<Rightarrow> Some l)"

text \<open>
  While a run goes on, \<open>sys.stderr\<close> is the console stream, so what the libraries and the
  interpreter print there is written to the console: the warnings of NumPy during a
  numeric call, what Matplotlib prints while drawing, the traceback of an exception that
  leaves the run. These texts are the environment's, a parameter of the model: the
  messages printed at each stage of the run.
\<close>

datatype stage = During numcall | Drawing | Uncaught

definition console_writes :: "msg list \<Rightarrow> app \<Rightarrow> app" where
  "console_writes ts s = s\<lparr>console := console s @ ts\<rparr>"

text \<open>
  The branch for one auxiliary row:
  \<^verbatim>\<open>aux_valid = aux_vec; aux_geo_valid = aux_geo; aux_mean = aux_vec[0]\<close>
\<close>

definition singleton_branch ::
  "vec3 list \<Rightarrow> vec4 list \<Rightarrow> numcall list \<times> (pyclass + vec3 list \<times> vec4 list \<times> vec3)" where
  "singleton_branch av ag =
     (case av of
        [] \<Rightarrow> ([], Inl IndexError)
      | r # _ \<Rightarrow> ([], Inr (av, ag, r)))"

text \<open>
  The branch for several auxiliary rows:
  \<^verbatim>\<open>outlier_mask = detect_outliers_zscore(aux_vec)\<close>
  \<^verbatim>\<open>aux_valid = aux_vec[~outlier_mask]\<close>
  \<^verbatim>\<open>aux_geo_valid = aux_geo[~outlier_mask]\<close>
  \<^verbatim>\<open>if aux_valid.shape[0] == 0: aux_valid = aux_vec; aux_geo_valid = aux_geo\<close>
  \<^verbatim>\<open>aux_mean = weighted_average(aux_valid)\<close>
\<close>

definition plural_branch ::
  "numlib \<Rightarrow> vec3 list \<Rightarrow> vec4 list
     \<Rightarrow> numcall list \<times> (pyclass + vec3 list \<times> vec4 list \<times> vec3)" where
  "plural_branch L av ag =
     (let outlier_mask = detect_outliers_zscore L av default_threshold
      in case bool_index av (map Not outlier_mask) of
           Inl e \<Rightarrow> ([DetectOutliers], Inl e)
         | Inr valid \<Rightarrow>
             (case bool_index ag (map Not outlier_mask) of
                Inl e \<Rightarrow> ([DetectOutliers], Inl e)
              | Inr geo_valid \<Rightarrow>
                  (let valid' = (if length valid = 0 then av else valid);
                       geo_valid' = (if length valid = 0 then ag else geo_valid)
                   in case weighted_average L valid' None of
                        Inl e \<Rightarrow> ([DetectOutliers, WeightedAverage], Inl e)
                      | Inr m \<Rightarrow> ([DetectOutliers, WeightedAverage], Inr (valid', geo_valid', m)))))"

definition geo_xyz :: "vec4 \<Rightarrow> fl \<times> fl \<times> fl" where
  "geo_xyz g = (fst g, fst (snd g), fst (snd (snd g)))"

text \<open>
  \<open>ax.quiver\<close> broadcasts the origins and the vectors it is given to one shape, as
  \<open>np.broadcast_arrays\<close> does: two lengths fit when they are equal or one of them is 1.
  When they do not fit it raises \<open>ValueError\<close>; otherwise the arrows are added to the
  figure.
\<close>

definition broadcastable :: "nat \<Rightarrow> nat \<Rightarrow> bool" where
  "broadcastable n m = (n = m \<or> n = 1 \<or> m = 1)"

definition quiver_call ::
  "string \<Rightarrow> string \<Rightarrow> vec4 list \<Rightarrow> vec3 list \<Rightarrow> quiver list \<Rightarrow> pyclass + quiver list" where
  "quiver_call color label geo vec fig =
     (if broadcastable (length geo) (length vec)
      then Inr (fig @ [Quiver color label (map geo_xyz geo) vec])
      else Inl ValueError)"

text \<open>
  The drawing: the figure is cleared, then up to three sets of arrows are added, each
  only when it has an origin. The result is the content of the figure, and the exception
  that ended the drawing, if one did.
\<close>

definition draw_figure :: "locals \<Rightarrow> quiver list \<times> pyclass option" where
  "draw_figure l =
     (case (if length (aux_geo_valid l) > 0
            then quiver_call ''green'' name_aux (aux_geo_valid l) (aux_valid l) []
            else Inr []) of
        Inl e \<Rightarrow> ([], Some e)
      | Inr f1 \<Rightarrow>
          (case (if length (main_geo l) > 0
                 then quiver_call ''blue'' name_main (main_geo l) (main_vec l) f1
                 else Inr f1) of
             Inl e \<Rightarrow> (f1, Some e)
           | Inr f2 \<Rightarrow>
               (case (if length (main_geo l) > 0
                      then quiver_call ''red'' name_corrected (main_geo l) (main_corrected l) f2
                      else Inr f2) of
                  Inl e \<Rightarrow> (f2, Some e)
                | Inr f3 \<Rightarrow> (f3, None))))"

text \<open>
  From the two messages about the auxiliary data to the end of \<open>process_and_plot\<close>: the
  correction with the default factor, the messages, the drawing. An exception of the
  drawing leaves the run before the canvas is redrawn and the label is set.
\<close>

definition correct_and_plot ::
  "numlib \<Rightarrow> (stage \<Rightarrow> msg list) \<Rightarrow> app \<Rightarrow> locals \<Rightarrow> app \<times> locals \<times> pyclass option" where
  "correct_and_plot L err s l0 =
     (let s1 = console_write [Lit info_count, Shown_nat (length (aux_valid l0)), Lit [CHR 0x0A]] s;
          s2 = console_write [Lit info_mean, Shown_vec (aux_mean l0), Lit [CHR 0x0A]] s1;
          l = l0\<lparr>main_corrected := correct_main_data L (main_vec l0) (aux_mean l0) default_factor\<rparr>;
          s3 = console_writes (err (During CorrectMainData)) s2;
          s4 = (case main_corrected l of
                  r # _ \<Rightarrow> console_write [Lit info_first, Shown_vec r, Lit [CHR 0x0A]] s3
                | [] \<Rightarrow> console_write [Lit warn_corrected_empty] s3);
          s5 = console_writes (err Drawing) (s4\<lparr>figure := fst (draw_figure l)\<rparr>)
      in case snd (draw_figure l) of
           Some e \<Rightarrow> (console_writes (err Uncaught) s5, l, Some e)
         | None \<Rightarrow> (console_write [Lit info_updated] (set_label [Lit lbl_done] s5), l, None))"

text \<open>
  \<open>process_and_plot\<close>. Every cell of the seven columns is numeric after
  \<open>table_to_dataframe\<close>, so \<open>astype(float)\<close> cannot fail and the handler of the
  \<open>try\<close> block is never entered. An exception raised after that block is not caught.
\<close>

definition process_and_plot ::
  "numlib \<Rightarrow> (string \<Rightarrow> fl) \<Rightarrow> (stage \<Rightarrow> msg list) \<Rightarrow> app \<Rightarrow> run" where
  "process_and_plot L to_numeric err s =
     (let main_df = table_to_dataframe to_numeric (table_main s);
          aux_df = table_to_dataframe to_numeric (table_aux s);
          s1 = show_console s
      in if length (vec_values main_df) = 0 \<or> length (vec_values aux_df) = 0
         then \<lparr>app_after = console_write [Lit warn_incomplete] (set_label [Lit lbl_incomplete] s1),
               calls = [], outcome = Aborted\<rparr>
         else
           (let mv = vec_values main_df;
                av = vec_values aux_df;
                mg = geo_values main_df;
                ag = geo_values aux_df
            in if length av = 0
               then \<lparr>app_after = console_write [Lit warn_aux_empty] (set_label [Lit lbl_aux_empty] s1),
                     calls = [], outcome = Aborted\<rparr>
               else
                 (case (if length av = 1 then singleton_branch av ag else plural_branch L av ag) of
                    (cs, Inl e) \<Rightarrow>
                      \<lparr>app_after = console_writes (concat (map (\<lambda>c. err (During c)) cs) @ err Uncaught) s1,
                       calls = cs, outcome = Raised e None\<rparr>
                  | (cs, Inr (valid, geo_valid, m)) \<Rightarrow>
                      (case correct_and_plot L err
                              (console_writes (concat (map (\<lambda>c. err (During c)) cs)) s1)
                              \<lparr>main_vec = mv, aux_vec = av, main_geo = mg, aux_geo = ag,
                               aux_valid = valid, aux_geo_valid = geo_valid, aux_mean = m,
                               main_corrected = []\<rparr> of
                         (s', l, None) \<Rightarrow>
                           \<lparr>app_after = s', calls = cs @ [CorrectMainData], outcome = Completed l\<rparr>
                       | (s', l, Some e) \<Rightarrow>
                           \<lparr>app_after = s', calls = cs @ [CorrectMainData],
                            outcome = Raised e (Some l)\<rparr>))))"

section \<open>Loading a workbook\<close>

text \<open>
  A sheet as \<open>pd.read_excel\<close> returns it: the labels of its columns, the number of its
  rows, and the value at a row and a label.
\<close>

record 'v sheet =
  columns :: "string list"
  n_rows :: nat
  cell :: "nat \<Rightarrow> string \<Rightarrow> 'v"

text \<open>\<open>df[FIELDS]\<close>: the seven columns, in the order of \<open>FIELDS\<close>.\<close>

definition select_fields :: "'v sheet \<Rightarrow> 'v row list" where
  "select_fields df =
     map (\<lambda>i. Row (cell df i f_lon) (cell df i f_lat) (cell df i f_depth) (cell df i f_elev)
                  (cell df i f_x) (cell df i f_y) (cell df i f_z)) [0..<n_rows df]"

text \<open>
  The two loops of the check: the sheets in their order, for each the labels of \<open>FIELDS\<close>
  in their order; the first label that is not a column of its sheet, with the name of the
  sheet.
\<close>

fun first_missing :: "string list \<Rightarrow> string list \<Rightarrow> string option" where
  "first_missing cols [] = None"
| "first_missing cols (f # fs) = (if f \<notin> set cols then Some f else first_missing cols fs)"

fun check_sheets :: "(string list \<times> string) list \<Rightarrow> (string \<times> string) option" where
  "check_sheets [] = None"
| "check_sheets ((cols, name) # rest) =
     (case first_missing cols FIELDS of
        Some col \<Rightarrow> Some (name, col)
      | None \<Rightarrow> check_sheets rest)"

text \<open>
  The body of the \<open>try\<close> block: the window it leaves, and the exception it raised, if
  any (its class and its message). Reading the file is the environment's: it gives the
  sheets in their order, or fails with an exception.
\<close>

definition load_excel_body ::
  "('v \<Rightarrow> string) \<Rightarrow> string \<Rightarrow> (pyclass \<times> string) + 'v sheet list \<Rightarrow> app
     \<Rightarrow> app \<times> (pyclass \<times> string) option" where
  "load_excel_body str_of file_path reading s =
     (case reading of
        Inl e \<Rightarrow> (s, Some e)
      | Inr [] \<Rightarrow> (s, Some (IndexError, ''list index out of range''))
      | Inr (main_df # others) \<Rightarrow>
          (let aux_df = (case others of [] \<Rightarrow> main_df | second # _ \<Rightarrow> second)
           in case check_sheets [(columns main_df, name_main), (columns aux_df, name_aux)] of
                Some (name, col) \<Rightarrow>
                  (console_write [Lit (''[ERROR] '' @ name @ txt_missing_col @ col @ [CHR 0x0A])]
                     (show_console s),
                   Some (ValueError, name @ txt_missing_col @ col))
              | None \<Rightarrow>
                  (let main_sel = select_fields main_df;
                       aux_sel = select_fields aux_df;
                       s1 = s\<lparr>table_main := dataframe_to_table str_of main_sel\<rparr>;
                       s2 = s1\<lparr>table_aux := dataframe_to_table str_of aux_sel\<rparr>;
                       s3 = set_label [Lit (txt_loaded @ file_path @ [CHR 0x0A] @ name_main),
                                       Shown_nat (length main_sel), Lit (txt_rows_sep @ name_aux),
                                       Shown_nat (length aux_sel), Lit txt_rows_end] s2
                   in (console_write [Lit (txt_load_ok @ file_path @ [CHR 0x0A])] (show_console s3),
                       None))))"

text \<open>
  \<open>load_excel\<close>: nothing happens without a file path; an exception of the body is
  reported on the console (with the traceback) and in a message box.
\<close>

definition load_excel ::
  "('v \<Rightarrow> string) \<Rightarrow> string \<Rightarrow> (pyclass \<times> string) + 'v sheet list \<Rightarrow> app \<Rightarrow> app" where
  "load_excel str_of file_path reading s =
     (if file_path = '''' then s
      else case load_excel_body str_of file_path reading s of
             (s', None) \<Rightarrow> s'
           | (s', Some e) \<Rightarrow>
               (let s1 = console_write [Lit (''[ERROR] '' @ txt_read_failed @ snd e @ [CHR 0x0A])]
                           (show_console s');
                    s2 = console_write [Traceback (fst e) (snd e)] s1
                in s2\<lparr>message_boxes := message_boxes s2 @ [(txt_error_title, txt_read_failed @ snd e)]\<rparr>))"

text \<open>
  The window after a load that the check of the columns refused, for the sheet \<open>name\<close>
  and the column \<open>col\<close>: the two messages and the traceback on the console, which is
  shown, and the message box; the tables, the label and the figure are those of before.
\<close>

definition missing_column_report :: "string \<Rightarrow> string \<Rightarrow> app \<Rightarrow> app" where
  "missing_column_report name col s =
     (show_console s)
       \<lparr>console := console s @
          [[Lit (''[ERROR] '' @ name @ txt_missing_col @ col @ [CHR 0x0A])],
           [Lit (''[ERROR] '' @ txt_read_failed @ name @ txt_missing_col @ col @ [CHR 0x0A])],
           [Traceback ValueError (name @ txt_missing_col @ col)]],
        message_boxes := message_boxes s @ [(txt_error_title, txt_read_failed @ name @ txt_missing_col @ col)]\<rparr>"


section \<open>The words of the specification\<close>



text \<open>
  A valid row in the words of the data model: a row with a complete geo-position and a
  complete magnetic vector.
\<close>

definition spec_valid_row :: "fl row \<Rightarrow> bool" where
  "spec_valid_row r = (complete4 (geo_fields r) \<and> complete3 (vector_fields r))"

text \<open>The blend of a row towards a reference: \<open>row + factor * (reference - row)\<close>.\<close>

definition blend_row :: "numlib \<Rightarrow> vec3 \<Rightarrow> vec3 \<Rightarrow> fl \<Rightarrow> vec3" where
  "blend_row L v ref f = vzip (l_add L) v (vmap (l_mul L f) (vzip (l_sub L) ref v))"

section \<open>Examples\<close>

text \<open>
  A reading of the texts of the cells, for the examples: a text of decimal digits is
  the number it writes, every other text is a missing value. (\<open>pd.to_numeric\<close> reads
  these texts so; the theorems hold for every reading.)
\<close>

definition digit_val :: "char \<Rightarrow> nat option" where
  "digit_val c = map_of (zip ''0123456789'' [0, 1, 2, 3, 4, 5, 6, 7, 8, 9]) c"

fun digits_val :: "nat \<Rightarrow> string \<Rightarrow> nat option" where
  "digits_val acc [] = Some acc"
| "digits_val acc (c # cs) =
     (case digit_val c of None \<Rightarrow> None | Some d \<Rightarrow> digits_val (10 * acc + d) cs)"

definition sample_numeric :: "string \<Rightarrow> fl" where
  "sample_numeric t =
     (if t = [] then NaN
      else case digits_val 0 t of None \<Rightarrow> NaN | Some n \<Rightarrow> Fin (real n))"

text \<open>
  The rows of the end-to-end example of the specification: a main row with the vector
  \<open>(10, 0, 0)\<close>, auxiliary rows with the vectors \<open>(0, 0, 10)\<close> and \<open>(0, 0, 12)\<close>, all
  at the position \<open>(1, 1, 0, 0)\<close>; and the main row without its longitude.
\<close>

definition example_main_row :: "string option row" where
  "example_main_row =
     Row (Some ''1'') (Some ''1'') (Some ''0'') (Some ''0'') (Some ''10'') (Some ''0'') (Some ''0'')"

definition example_aux_row1 :: "string option row" where
  "example_aux_row1 =
     Row (Some ''1'') (Some ''1'') (Some ''0'') (Some ''0'') (Some ''0'') (Some ''0'') (Some ''10'')"

definition example_aux_row2 :: "string option row" where
  "example_aux_row2 =
     Row (Some ''1'') (Some ''1'') (Some ''0'') (Some ''0'') (Some ''0'') (Some ''0'') (Some ''12'')"

definition example_no_lon_row :: "string option row" where
  "example_no_lon_row =
     Row None (Some ''1'') (Some ''0'') (Some ''0'') (Some ''10'') (Some ''0'') (Some ''0'')"

text \<open>The window with the given rows in its two tables.\<close>

definition example_app :: "grid \<Rightarrow> grid \<Rightarrow> app" where
  "example_app m a = initial_app\<lparr>table_main := m, table_aux := a\<rparr>"

text \<open>A sheet of one row with the given columns, every cell holding the text \<open>1\<close>.\<close>

definition example_sheet :: "string list \<Rightarrow> string sheet" where
  "example_sheet cols = \<lparr>columns = cols, n_rows = 1, cell = (\<lambda>i c. ''1'')\<rparr>"

text \<open>An environment that prints nothing on the console.\<close>

definition silent :: "stage \<Rightarrow> msg list" where
  "silent st = []"




section \<open>The facts of the library\<close>

lemma lib_laws_Rep: "lib_laws (Rep_numlib L)"
  using Rep_numlib [of L] by simp

lemma l_sum_Nil: "l_sum L k [] = Fin 0"
  and l_sum_single: "l_sum L k [x] = x"
  and l_mul_one: "l_mul L x (Fin 1) = x"
  and l_div_one: "l_div L x (Fin 1) = x"
  and l_sub_self: "l_sub L x x = Fin 0 \<or> l_sub L x x = NaN"
  and l_mul_zero: "l_mul L (Fin 0) (Fin 0) = Fin 0"
  and l_sqrt_zero: "l_sqrt L (Fin 0) = Fin 0"
  and l_div_zero_zero: "l_div L (Fin 0) (Fin 0) = NaN"
  and l_mul_NaN: "l_mul L NaN y = NaN"
  and l_div_NaN: "l_div L NaN y = NaN"
  and l_sqrt_NaN: "l_sqrt L NaN = NaN"
  and l_abs_div: "fabs (l_div L x y) = l_div L (fabs x) (fabs y)"
  and l_abs_sqrt: "fabs (l_sqrt L x) = l_sqrt L x"
  using lib_laws_Rep [of L]
  unfolding lib_laws_def l_sum_def l_mul_def l_div_def l_sub_def l_sqrt_def
  by blast+



section \<open>The outlier filter\<close>

lemma length_detect: "length (detect_outliers_zscore L d t) = length d"
  by (simp add: detect_outliers_zscore_def)




section \<open>The single auxiliary row\<close>

lemma np_mean_single: "np_mean L [x] = x"
  by (simp add: np_mean_def l_sum_single l_div_one)

lemma single_not_flagged:
  "\<not> fgt (fabs (l_div L (l_sub L x (np_mean L [x])) (np_std L [x]))) t"
proof -
  have "l_sub L x x = Fin 0 \<or> l_sub L x x = NaN" by (rule l_sub_self)
  then show ?thesis
  proof
    assume z: "l_sub L x x = Fin 0"
    then have "np_std L [x] = Fin 0"
      by (simp add: np_std_def Let_def np_mean_single l_mul_zero l_sqrt_zero)
    with z show ?thesis
      by (simp add: np_mean_single l_div_zero_zero)
  next
    assume n: "l_sub L x x = NaN"
    then show ?thesis
      by (simp add: np_mean_single l_div_NaN)
  qed
qed

lemma detect_single: "detect_outliers_zscore L [r] t = [False]"
  by (simp add: detect_outliers_zscore_def axis0_def vmap_def vzip_def c0_def c1_def c2_def
      single_not_flagged)

lemma weighted_average_single: "weighted_average L [r] None = Inr r"
  by (simp add: weighted_average_def np_average_def axis0_def c0_def c1_def c2_def
      l_sum_single l_div_one l_mul_one)

text \<open>
  Claim C10. For every matrix of one row, the weighted aggregator without weights
  returns that row; so the branch for one auxiliary row, which takes the row as the
  mean, gives the valid rows, the positions and the mean that the branch for several
  rows gives on the same one row (which calls the filter and the aggregator to get them).
\<close>

theorem singleton_agrees_with_plural:
  "weighted_average L [r] None = Inr r
   \<and> singleton_branch [r] [g] = ([], Inr ([r], [g], r))
   \<and> plural_branch L [r] [g] = ([DetectOutliers, WeightedAverage], Inr ([r], [g], r))
   \<and> snd (plural_branch L [r] [g]) = snd (singleton_branch [r] [g])"
proof -
  have s: "singleton_branch [r] [g] = ([], Inr ([r], [g], r))"
    by (simp add: singleton_branch_def)
  have p: "plural_branch L [r] [g] = ([DetectOutliers, WeightedAverage], Inr ([r], [g], r))"
    by (simp add: plural_branch_def detect_single bool_index_def weighted_average_single)
  show ?thesis using s p weighted_average_single by simp
qed

section \<open>The branches of the pipeline\<close>

lemma plural_branch_misaligned:
  "length ag \<noteq> length av \<Longrightarrow> plural_branch L av ag = ([DetectOutliers], Inl IndexError)"
  by (simp add: plural_branch_def Let_def bool_index_def length_detect)

lemma correct_and_plot_locals:
  "fst (snd (correct_and_plot L err s l0)) =
     l0\<lparr>main_corrected := correct_main_data L (main_vec l0) (aux_mean l0) default_factor\<rparr>"
  by (simp add: correct_and_plot_def Let_def split: option.splits)

lemma process_and_plot_abort:
  assumes "vec_values (table_to_dataframe tn (table_main s)) = []
           \<or> vec_values (table_to_dataframe tn (table_aux s)) = []"
  shows "process_and_plot L tn err s =
           \<lparr>app_after = console_write [Lit warn_incomplete] (set_label [Lit lbl_incomplete] (show_console s)),
            calls = [], outcome = Aborted\<rparr>"
  using assms by (auto simp: process_and_plot_def Let_def)

lemma process_and_plot_branch:
  assumes "vec_values (table_to_dataframe tn (table_main s)) \<noteq> []"
      and "vec_values (table_to_dataframe tn (table_aux s)) \<noteq> []"
  shows "process_and_plot L tn err s =
     (case (if length (vec_values (table_to_dataframe tn (table_aux s))) = 1
            then singleton_branch (vec_values (table_to_dataframe tn (table_aux s)))
                                  (geo_values (table_to_dataframe tn (table_aux s)))
            else plural_branch L (vec_values (table_to_dataframe tn (table_aux s)))
                               (geo_values (table_to_dataframe tn (table_aux s)))) of
        (cs, Inl e) \<Rightarrow>
          \<lparr>app_after = console_writes (concat (map (\<lambda>c. err (During c)) cs) @ err Uncaught) (show_console s),
           calls = cs, outcome = Raised e None\<rparr>
      | (cs, Inr (valid, geo_valid, m)) \<Rightarrow>
          (case correct_and_plot L err
                  (console_writes (concat (map (\<lambda>c. err (During c)) cs)) (show_console s))
                  \<lparr>main_vec = vec_values (table_to_dataframe tn (table_main s)),
                   aux_vec = vec_values (table_to_dataframe tn (table_aux s)),
                   main_geo = geo_values (table_to_dataframe tn (table_main s)),
                   aux_geo = geo_values (table_to_dataframe tn (table_aux s)),
                   aux_valid = valid, aux_geo_valid = geo_valid, aux_mean = m,
                   main_corrected = []\<rparr> of
             (s', l, None) \<Rightarrow>
               \<lparr>app_after = s', calls = cs @ [CorrectMainData], outcome = Completed l\<rparr>
           | (s', l, Some e) \<Rightarrow>
               \<lparr>app_after = s', calls = cs @ [CorrectMainData], outcome = Raised e (Some l)\<rparr>))"
  using assms by (simp add: process_and_plot_def Let_def)

lemma process_and_plot_computed:
  assumes mv: "vec_values (table_to_dataframe tn (table_main s)) = mv" "mv \<noteq> []"
      and av: "vec_values (table_to_dataframe tn (table_aux s)) = av" "av \<noteq> []"
      and br: "(if length av = 1 then singleton_branch av (geo_values (table_to_dataframe tn (table_aux s)))
                else plural_branch L av (geo_values (table_to_dataframe tn (table_aux s))))
               = (cs, Inr (valid, geo_valid, m))"
  shows "calls (process_and_plot L tn err s) = cs @ [CorrectMainData]
       \<and> computed (process_and_plot L tn err s) = Some
           \<lparr>main_vec = mv, aux_vec = av,
            main_geo = geo_values (table_to_dataframe tn (table_main s)),
            aux_geo = geo_values (table_to_dataframe tn (table_aux s)),
            aux_valid = valid, aux_geo_valid = geo_valid, aux_mean = m,
            main_corrected = correct_main_data L mv m default_factor\<rparr>"
proof -
  have ne: "vec_values (table_to_dataframe tn (table_main s)) \<noteq> []"
           "vec_values (table_to_dataframe tn (table_aux s)) \<noteq> []"
    using mv av by simp_all
  let ?l0 = "\<lparr>main_vec = mv, aux_vec = av,
            main_geo = geo_values (table_to_dataframe tn (table_main s)),
            aux_geo = geo_values (table_to_dataframe tn (table_aux s)),
            aux_valid = valid, aux_geo_valid = geo_valid, aux_mean = m,
            main_corrected = []\<rparr>"
  let ?s0 = "console_writes (concat (map (\<lambda>c. err (During c)) cs)) (show_console s)"
  obtain s' l ex where c: "correct_and_plot L err ?s0 ?l0 = (s', l, ex)"
    by (cases "correct_and_plot L err ?s0 ?l0") auto
  have l: "l = ?l0\<lparr>main_corrected := correct_main_data L mv m default_factor\<rparr>"
    using correct_and_plot_locals [of L err ?s0 ?l0] c by simp
  show ?thesis
    unfolding process_and_plot_branch [OF ne] mv(1) av(1) br
    using c l by (cases ex) (simp_all add: computed_def)
qed

lemma process_and_plot_raised:
  assumes mv: "vec_values (table_to_dataframe tn (table_main s)) \<noteq> []"
      and av: "vec_values (table_to_dataframe tn (table_aux s)) = av" "av \<noteq> []"
      and br: "(if length av = 1 then singleton_branch av (geo_values (table_to_dataframe tn (table_aux s)))
                else plural_branch L av (geo_values (table_to_dataframe tn (table_aux s))))
               = (cs, Inl e)"
  shows "process_and_plot L tn err s =
           \<lparr>app_after = console_writes (concat (map (\<lambda>c. err (During c)) cs) @ err Uncaught) (show_console s),
            calls = cs, outcome = Raised e None\<rparr>"
proof -
  have ne: "vec_values (table_to_dataframe tn (table_aux s)) \<noteq> []"
    using av by simp
  show ?thesis
    unfolding process_and_plot_branch [OF mv ne] av(1) br by simp
qed

lemma pp_aborted:
  assumes "vec_values (table_to_dataframe tn (table_main s)) = []
           \<or> vec_values (table_to_dataframe tn (table_aux s)) = []"
  shows "calls (process_and_plot L tn err s) = []
       \<and> outcome (process_and_plot L tn err s) = Aborted
       \<and> computed (process_and_plot L tn err s) = None"
  by (simp add: process_and_plot_abort [OF assms] computed_def)

lemma pp_singleton:
  assumes mv: "vec_values (table_to_dataframe tn (table_main s)) \<noteq> []"
      and av: "vec_values (table_to_dataframe tn (table_aux s)) = [r]"
  shows "calls (process_and_plot L tn err s) = [CorrectMainData]
       \<and> computed (process_and_plot L tn err s) = Some
           \<lparr>main_vec = vec_values (table_to_dataframe tn (table_main s)), aux_vec = [r],
            main_geo = geo_values (table_to_dataframe tn (table_main s)),
            aux_geo = geo_values (table_to_dataframe tn (table_aux s)),
            aux_valid = [r], aux_geo_valid = geo_values (table_to_dataframe tn (table_aux s)),
            aux_mean = r,
            main_corrected = correct_main_data L (vec_values (table_to_dataframe tn (table_main s))) r default_factor\<rparr>"
proof -
  have br: "(if length [r] = 1 then singleton_branch [r] (geo_values (table_to_dataframe tn (table_aux s)))
             else plural_branch L [r] (geo_values (table_to_dataframe tn (table_aux s))))
            = ([], Inr ([r], geo_values (table_to_dataframe tn (table_aux s)), r))"
    by (simp add: singleton_branch_def)
  from process_and_plot_computed [OF refl mv av _ br] show ?thesis by simp
qed

lemma length_two: "xs \<noteq> [] \<Longrightarrow> length xs \<noteq> 1 \<Longrightarrow> 2 \<le> length xs"
  by (cases xs) (auto simp: Suc_le_eq)

lemma pp_misaligned:
  assumes mv: "vec_values (table_to_dataframe tn (table_main s)) \<noteq> []"
      and av: "2 \<le> length (vec_values (table_to_dataframe tn (table_aux s)))"
      and ag: "length (geo_values (table_to_dataframe tn (table_aux s)))
                 \<noteq> length (vec_values (table_to_dataframe tn (table_aux s)))"
  shows "process_and_plot L tn err s =
           \<lparr>app_after = console_writes (err (During DetectOutliers) @ err Uncaught) (show_console s),
            calls = [DetectOutliers], outcome = Raised IndexError None\<rparr>"
proof -
  have ne: "vec_values (table_to_dataframe tn (table_aux s)) \<noteq> []"
    and n1: "length (vec_values (table_to_dataframe tn (table_aux s))) \<noteq> 1" using av by auto
  have br: "(if length (vec_values (table_to_dataframe tn (table_aux s))) = 1
             then singleton_branch (vec_values (table_to_dataframe tn (table_aux s)))
                    (geo_values (table_to_dataframe tn (table_aux s)))
             else plural_branch L (vec_values (table_to_dataframe tn (table_aux s)))
                    (geo_values (table_to_dataframe tn (table_aux s))))
            = ([DetectOutliers], Inl IndexError)"
    using n1 plural_branch_misaligned [OF ag] by simp
  from process_and_plot_raised [OF mv refl ne br] show ?thesis by simp
qed

lemma pp_computed_corrected:
  assumes "computed (process_and_plot L tn err s) = Some l"
  shows "main_corrected l =
           correct_main_data L (vec_values (table_to_dataframe tn (table_main s))) (aux_mean l) default_factor"
proof (cases "vec_values (table_to_dataframe tn (table_main s)) = []
              \<or> vec_values (table_to_dataframe tn (table_aux s)) = []")
  case True
  from pp_aborted [OF True] assms show ?thesis by simp
next
  case False
  then have mv: "vec_values (table_to_dataframe tn (table_main s)) \<noteq> []"
    and ne: "vec_values (table_to_dataframe tn (table_aux s)) \<noteq> []" by simp_all
  let ?av = "vec_values (table_to_dataframe tn (table_aux s))"
  let ?ag = "geo_values (table_to_dataframe tn (table_aux s))"
  obtain cs res where b: "(if length ?av = 1 then singleton_branch ?av ?ag else plural_branch L ?av ?ag) = (cs, res)"
    by (cases "if length ?av = 1 then singleton_branch ?av ?ag else plural_branch L ?av ?ag") auto
  show ?thesis
  proof (cases res)
    case (Inl e)
    from process_and_plot_raised [OF mv refl ne b [unfolded Inl]] assms show ?thesis
      by (simp add: computed_def)
  next
    case (Inr t)
    obtain valid gv m where t: "t = (valid, gv, m)" by (cases t) auto
    from process_and_plot_computed [OF refl mv refl ne b [unfolded Inr t]] assms show ?thesis
      by auto
  qed
qed

lemma correct_main_data_blend_rows:
  "correct_main_data L (vec_values df) m f
     = map (\<lambda>r. blend_row L (vector_fields r) m f) (filter (\<lambda>r. complete3 (vector_fields r)) df)"
  by (simp add: correct_main_data_def vec_values_def blend_row_def filter_map comp_def)

lemma vec_values_simps:
  "vec_values [] = []"
  "vec_values (r # df) = (if complete3 (vector_fields r) then vector_fields r # vec_values df else vec_values df)"
  by (simp_all add: vec_values_def)

lemma geo_values_simps:
  "geo_values [] = []"
  "geo_values (r # df) = (if complete4 (geo_fields r) then geo_fields r # geo_values df else geo_values df)"
  by (simp_all add: geo_values_def)

section \<open>The examples, evaluated\<close>

lemma sample_numeric_values:
  "sample_numeric [] = NaN"
  "sample_numeric ''0'' = Fin 0"
  "sample_numeric ''1'' = Fin 1"
  "sample_numeric ''10'' = Fin 10"
  "sample_numeric ''12'' = Fin 12"
  by (simp_all add: sample_numeric_def digit_val_def)

lemma example_rows:
  "map_row (\<lambda>item. sample_numeric (item_text item)) example_main_row
     = Row (Fin 1) (Fin 1) (Fin 0) (Fin 0) (Fin 10) (Fin 0) (Fin 0)"
  "map_row (\<lambda>item. sample_numeric (item_text item)) example_aux_row1
     = Row (Fin 1) (Fin 1) (Fin 0) (Fin 0) (Fin 0) (Fin 0) (Fin 10)"
  "map_row (\<lambda>item. sample_numeric (item_text item)) example_aux_row2
     = Row (Fin 1) (Fin 1) (Fin 0) (Fin 0) (Fin 0) (Fin 0) (Fin 12)"
  "map_row (\<lambda>item. sample_numeric (item_text item)) example_no_lon_row
     = Row NaN (Fin 1) (Fin 0) (Fin 0) (Fin 10) (Fin 0) (Fin 0)"
  "map_row (\<lambda>item. sample_numeric (item_text item)) empty_row
     = Row NaN NaN NaN NaN NaN NaN NaN"
  by (simp_all add: example_main_row_def example_aux_row1_def example_aux_row2_def
      example_no_lon_row_def empty_row_def item_text_def sample_numeric_values)

lemma example_tables:
  "table_main (example_app m a) = m" "table_aux (example_app m a) = a"
  "figure (example_app m a) = []" "console (example_app m a) = []"
  by (simp_all add: example_app_def initial_app_def)

lemmas example_eval = table_to_dataframe_def example_tables example_rows vec_values_simps geo_values_simps
  complete3_def complete4_def vector_fields_def geo_fields_def c0_def c1_def c2_def


section \<open>The pipeline without data\<close>

text \<open>
  Claim C8. If the main table has no row with a complete magnetic vector, or the
  auxiliary table has none, the run stops at once: the label gets its message, the
  console a line tagged \<open>[WARN]\<close>, no numeric function is called, no correction is
  computed, and the figure and the tables are those of before.
\<close>

theorem incomplete_data_aborts:
  assumes "length (vec_values (table_to_dataframe tn (table_main s))) = 0
           \<or> length (vec_values (table_to_dataframe tn (table_aux s))) = 0"
  shows "process_and_plot L tn err s =
           \<lparr>app_after = (show_console s)\<lparr>label_text := [Lit lbl_incomplete],
                                         console := console s @ [[Lit warn_incomplete]]\<rparr>,
            calls = [], outcome = Aborted\<rparr>
         \<and> take 6 warn_incomplete = ''[WARN]''
         \<and> figure (app_after (process_and_plot L tn err s)) = figure s
         \<and> table_main (app_after (process_and_plot L tn err s)) = table_main s
         \<and> table_aux (app_after (process_and_plot L tn err s)) = table_aux s"
proof -
  have e: "vec_values (table_to_dataframe tn (table_main s)) = []
           \<or> vec_values (table_to_dataframe tn (table_aux s)) = []"
    using assms by simp
  have w: "take 6 warn_incomplete = ''[WARN]''"
    by (simp add: warn_incomplete_def)
  show ?thesis
    unfolding process_and_plot_abort [OF e]
    using w by (simp add: console_write_def set_label_def show_console_def)
qed

theorem incomplete_data_aborts_witness:
  "\<forall>L err. process_and_plot L sample_numeric err (example_app [example_main_row] [empty_row]) =
     \<lparr>app_after = (example_app [example_main_row] [empty_row])
                    \<lparr>label_text := [Lit lbl_incomplete], console := [[Lit warn_incomplete]],
                     console_shown := True\<rparr>,
      calls = [], outcome = Aborted\<rparr>"
proof (intro allI)
  fix L err
  show "process_and_plot L sample_numeric err (example_app [example_main_row] [empty_row]) =
     \<lparr>app_after = (example_app [example_main_row] [empty_row])
                    \<lparr>label_text := [Lit lbl_incomplete], console := [[Lit warn_incomplete]],
                     console_shown := True\<rparr>,
      calls = [], outcome = Aborted\<rparr>"
    using incomplete_data_aborts [of sample_numeric "example_app [example_main_row] [empty_row]" L err]
    by (simp add: example_eval show_console_def example_app_def initial_app_def)
qed

section \<open>One auxiliary row\<close>

text \<open>
  Claim C4. When exactly one auxiliary row has a complete vector, the run calls neither
  the outlier filter nor the weighted aggregator; it returns at the first guard when the
  main table has no complete vector, and otherwise the mean it computes the correction
  with is this one row. (Whether the drawing that follows goes through is another
  matter: the values are computed before it.)
\<close>

theorem singleton_auxiliary_is_the_mean:
  assumes "length (vec_values (table_to_dataframe tn (table_aux s))) = 1"
  shows "DetectOutliers \<notin> set (calls (process_and_plot L tn err s))
       \<and> WeightedAverage \<notin> set (calls (process_and_plot L tn err s))
       \<and> (if vec_values (table_to_dataframe tn (table_main s)) = []
          then outcome (process_and_plot L tn err s) = Aborted
          else \<exists>l. computed (process_and_plot L tn err s) = Some l
                 \<and> vec_values (table_to_dataframe tn (table_aux s)) = [aux_mean l]
                 \<and> aux_valid l = [aux_mean l]
                 \<and> main_corrected l =
                     correct_main_data L (vec_values (table_to_dataframe tn (table_main s)))
                       (aux_mean l) default_factor)"
proof -
  obtain r where r: "vec_values (table_to_dataframe tn (table_aux s)) = [r]"
    using assms by (cases "vec_values (table_to_dataframe tn (table_aux s))") auto
  show ?thesis
  proof (cases "vec_values (table_to_dataframe tn (table_main s)) = []")
    case True
    then show ?thesis using pp_aborted [of tn s L err] by simp
  next
    case False
    from pp_singleton [OF False r] show ?thesis using False r by simp
  qed
qed

theorem singleton_auxiliary_is_the_mean_witness:
  "\<forall>L err. calls (process_and_plot L sample_numeric err
                    (example_app [example_main_row] [example_aux_row2, empty_row]))
              = [CorrectMainData]
     \<and> (\<exists>l. computed (process_and_plot L sample_numeric err
                    (example_app [example_main_row] [example_aux_row2, empty_row])) = Some l
           \<and> aux_mean l = (Fin 0, Fin 0, Fin 12)
           \<and> aux_valid l = [(Fin 0, Fin 0, Fin 12)])"
proof (intro allI)
  fix L err
  let ?s = "example_app [example_main_row] [example_aux_row2, empty_row]"
  have h: "length (vec_values (table_to_dataframe sample_numeric (table_aux ?s))) = 1"
    by (simp add: example_eval)
  have mv: "vec_values (table_to_dataframe sample_numeric (table_main ?s)) = [(Fin 10, Fin 0, Fin 0)]"
    by (simp add: example_eval)
  have av: "vec_values (table_to_dataframe sample_numeric (table_aux ?s)) = [(Fin 0, Fin 0, Fin 12)]"
    by (simp add: example_eval)
  have c: "calls (process_and_plot L sample_numeric err ?s) = [CorrectMainData]"
    using pp_singleton [of sample_numeric ?s "(Fin 0, Fin 0, Fin 12)" L err] mv av by simp
  from singleton_auxiliary_is_the_mean [OF h, of L err]
  obtain l where o: "computed (process_and_plot L sample_numeric err ?s) = Some l"
    and m: "[(Fin 0, Fin 0, Fin 12)] = [aux_mean l]"
    and v: "aux_valid l = [aux_mean l]"
    unfolding mv av by auto
  have am: "aux_mean l = (Fin 0, Fin 0, Fin 12)"
    using m by simp
  show "calls (process_and_plot L sample_numeric err ?s) = [CorrectMainData]
     \<and> (\<exists>l. computed (process_and_plot L sample_numeric err ?s) = Some l
           \<and> aux_mean l = (Fin 0, Fin 0, Fin 12)
           \<and> aux_valid l = [(Fin 0, Fin 0, Fin 12)])"
    using c o am v by auto
qed

section \<open>Several auxiliary rows\<close>

text \<open>
  Claim C5, at an input where the program departs from it. The main table holds one
  complete row; the auxiliary table holds two rows with complete vectors, the second
  without its longitude. Two auxiliary vectors are valid, so the run calls the outlier
  filter; \<open>aux_geo\<close> has one row and the mask two entries, so \<open>aux_geo[~outlier_mask]\<close>
  raises \<open>IndexError\<close>, which nothing catches, and the weighted aggregator is never
  called.
\<close>

theorem plural_auxiliary_misaligned_positions:
  "process_and_plot L sample_numeric err (example_app [example_main_row] [example_aux_row1, example_no_lon_row])
     = \<lparr>app_after = (example_app [example_main_row] [example_aux_row1, example_no_lon_row])
                       \<lparr>console := err (During DetectOutliers) @ err Uncaught,
                        console_shown := True\<rparr>,
        calls = [DetectOutliers], outcome = Raised IndexError None\<rparr>
   \<and> length (vec_values (table_to_dataframe sample_numeric
               (table_aux (example_app [example_main_row] [example_aux_row1, example_no_lon_row])))) = 2
   \<and> WeightedAverage \<notin> set (calls (process_and_plot L sample_numeric err
               (example_app [example_main_row] [example_aux_row1, example_no_lon_row])))"
proof -
  let ?s = "example_app [example_main_row] [example_aux_row1, example_no_lon_row]"
  have p: "process_and_plot L sample_numeric err ?s =
           \<lparr>app_after = console_writes (err (During DetectOutliers) @ err Uncaught) (show_console ?s),
            calls = [DetectOutliers], outcome = Raised IndexError None\<rparr>"
    by (rule pp_misaligned) (simp_all add: example_eval)
  have n: "length (vec_values (table_to_dataframe sample_numeric (table_aux ?s))) = 2"
    by (simp add: example_eval)
  show ?thesis
    unfolding p using n
    by (simp add: show_console_def console_writes_def example_app_def initial_app_def)
qed

section \<open>The correction result\<close>

text \<open>
  Claim C6, amended. Whenever a run computes a correction result, the result is, in the
  order of the table, the blend of each main row that has a complete magnetic vector
  (whatever its position cells hold) towards the auxiliary mean, with the default factor;
  so it has as many rows as the main table has complete vectors, whatever the auxiliary
  table holds. A run does compute one when the main table has a complete vector and
  exactly one auxiliary row has.
\<close>

theorem correction_aligned_with_main_vectors:
  "(\<forall>l. computed (process_and_plot L tn err s) = Some l \<longrightarrow>
          main_corrected l =
            map (\<lambda>r. blend_row L (vector_fields r) (aux_mean l) default_factor)
                (filter (\<lambda>r. complete3 (vector_fields r)) (table_to_dataframe tn (table_main s)))
          \<and> length (main_corrected l) =
              length (filter (\<lambda>r. complete3 (vector_fields r)) (table_to_dataframe tn (table_main s))))
   \<and> (vec_values (table_to_dataframe tn (table_main s)) \<noteq> []
        \<and> length (vec_values (table_to_dataframe tn (table_aux s))) = 1 \<longrightarrow>
       (\<exists>l. computed (process_and_plot L tn err s) = Some l))"
proof -
  have A: "\<forall>l. computed (process_and_plot L tn err s) = Some l \<longrightarrow>
          main_corrected l =
            map (\<lambda>r. blend_row L (vector_fields r) (aux_mean l) default_factor)
                (filter (\<lambda>r. complete3 (vector_fields r)) (table_to_dataframe tn (table_main s)))
          \<and> length (main_corrected l) =
              length (filter (\<lambda>r. complete3 (vector_fields r)) (table_to_dataframe tn (table_main s)))"
  proof (intro allI impI)
    fix l assume c: "computed (process_and_plot L tn err s) = Some l"
    show "main_corrected l =
            map (\<lambda>r. blend_row L (vector_fields r) (aux_mean l) default_factor)
                (filter (\<lambda>r. complete3 (vector_fields r)) (table_to_dataframe tn (table_main s)))
          \<and> length (main_corrected l) =
              length (filter (\<lambda>r. complete3 (vector_fields r)) (table_to_dataframe tn (table_main s)))"
      using pp_computed_corrected [OF c] by (simp add: correct_main_data_blend_rows)
  qed
  have B: "vec_values (table_to_dataframe tn (table_main s)) \<noteq> []
        \<and> length (vec_values (table_to_dataframe tn (table_aux s))) = 1 \<longrightarrow>
       (\<exists>l. computed (process_and_plot L tn err s) = Some l)"
  proof (intro impI)
    assume h: "vec_values (table_to_dataframe tn (table_main s)) \<noteq> []
        \<and> length (vec_values (table_to_dataframe tn (table_aux s))) = 1"
    then obtain r where r: "vec_values (table_to_dataframe tn (table_aux s)) = [r]"
      by (cases "vec_values (table_to_dataframe tn (table_aux s))") auto
    from h have mv: "vec_values (table_to_dataframe tn (table_main s)) \<noteq> []" by simp
    from pp_singleton [OF mv r, of L err]
    show "\<exists>l. computed (process_and_plot L tn err s) = Some l" by blast
  qed
  from A B show ?thesis by (rule conjI)
qed

theorem correction_aligned_with_main_vectors_witness:
  "\<forall>L err. \<exists>l. computed (process_and_plot L sample_numeric err
            (example_app [example_main_row, empty_row] [example_aux_row1])) = Some l
       \<and> main_corrected l = [blend_row L (Fin 10, Fin 0, Fin 0) (aux_mean l) (Fin 1)]
       \<and> length (main_corrected l) = 1"
proof (intro allI)
  fix L err
  let ?s = "example_app [example_main_row, empty_row] [example_aux_row1]"
  have h: "vec_values (table_to_dataframe sample_numeric (table_main ?s)) \<noteq> []
        \<and> length (vec_values (table_to_dataframe sample_numeric (table_aux ?s))) = 1"
    by (simp add: example_eval)
  with correction_aligned_with_main_vectors [of L sample_numeric err ?s]
  obtain l where o: "computed (process_and_plot L sample_numeric err ?s) = Some l"
    and m: "main_corrected l =
            map (\<lambda>r. blend_row L (vector_fields r) (aux_mean l) default_factor)
                (filter (\<lambda>r. complete3 (vector_fields r)) (table_to_dataframe sample_numeric (table_main ?s)))"
    by blast
  have "main_corrected l = [blend_row L (Fin 10, Fin 0, Fin 0) (aux_mean l) (Fin 1)]"
    unfolding m by (simp add: example_eval default_factor_def)
  with o show "\<exists>l. computed (process_and_plot L sample_numeric err ?s) = Some l
       \<and> main_corrected l = [blend_row L (Fin 10, Fin 0, Fin 0) (aux_mean l) (Fin 1)]
       \<and> length (main_corrected l) = 1" by auto
qed

text \<open>
  The rows counted are those with a complete magnetic vector, not those that are
  complete in all seven fields: a main table whose only row lacks its longitude has no
  row that is valid in all fields, and yet the run corrects that row.
\<close>

theorem correction_counts_rows_without_position_counterexample:
  "length (filter spec_valid_row (table_to_dataframe sample_numeric
             (table_main (example_app [example_no_lon_row] [example_aux_row1])))) = 0
   \<and> (\<forall>L err. \<exists>l. computed (process_and_plot L sample_numeric err
                          (example_app [example_no_lon_row] [example_aux_row1])) = Some l
          \<and> main_vec l = [(Fin 10, Fin 0, Fin 0)]
          \<and> aux_mean l = (Fin 0, Fin 0, Fin 10)
          \<and> length (main_corrected l) = 1)"
proof -
  let ?s = "example_app [example_no_lon_row] [example_aux_row1]"
  have a: "length (filter spec_valid_row (table_to_dataframe sample_numeric (table_main ?s))) = 0"
    by (simp add: example_eval spec_valid_row_def)
  have mv: "vec_values (table_to_dataframe sample_numeric (table_main ?s)) \<noteq> []"
    by (simp add: example_eval)
  have av: "vec_values (table_to_dataframe sample_numeric (table_aux ?s)) = [(Fin 0, Fin 0, Fin 10)]"
    by (simp add: example_eval)
  have "\<exists>l. computed (process_and_plot L sample_numeric err ?s) = Some l
          \<and> main_vec l = [(Fin 10, Fin 0, Fin 0)]
          \<and> aux_mean l = (Fin 0, Fin 0, Fin 10)
          \<and> length (main_corrected l) = 1" for L err
    using pp_singleton [OF mv av, of L err]
    by (simp add: example_eval correct_main_data_def)
  with a show ?thesis by blast
qed

text \<open>
  The drawing raises when the main positions do not fit the main vectors: the rows of
  the main table may lack a position cell and keep their vector, or the reverse.
\<close>

lemma draw_figure_raises:
  assumes "aux_geo_valid l = []" and "main_geo l \<noteq> []"
      and "\<not> broadcastable (length (main_geo l)) (length (main_vec l))"
  shows "draw_figure l = ([], Some ValueError)"
  using assms by (simp add: draw_figure_def quiver_call_def)


section \<open>A workbook without a required column\<close>

lemma first_missing_Some:
  "\<exists>f\<in>set fs. f \<notin> set cols \<Longrightarrow> \<exists>c. first_missing cols fs = Some c \<and> c \<in> set fs \<and> c \<notin> set cols"
  by (induction fs) auto

lemma first_missing_None:
  "\<forall>f\<in>set fs. f \<in> set cols \<Longrightarrow> first_missing cols fs = None"
  by (induction fs) auto

lemma check_sheets_missing:
  assumes "\<exists>f\<in>set FIELDS. f \<notin> set cm \<or> f \<notin> set ca"
  shows "\<exists>name col. check_sheets [(cm, name_main), (ca, name_aux)] = Some (name, col)
           \<and> col \<in> set FIELDS
           \<and> (name = name_main \<and> col \<notin> set cm \<or> name = name_aux \<and> col \<notin> set ca)"
proof (cases "\<exists>f\<in>set FIELDS. f \<notin> set cm")
  case True
  from first_missing_Some [OF True] show ?thesis by auto
next
  case False
  then have n: "first_missing cm FIELDS = None"
    by (intro first_missing_None) auto
  from False assms have "\<exists>f\<in>set FIELDS. f \<notin> set ca" by auto
  from first_missing_Some [OF this] n show ?thesis by auto
qed

lemma load_excel_missing:
  assumes "file_path \<noteq> []"
      and "check_sheets [(columns main_df, name_main),
                         (columns (case others of [] \<Rightarrow> main_df | second # _ \<Rightarrow> second), name_aux)]
             = Some (name, col)"
  shows "load_excel str_of file_path (Inr (main_df # others)) s = missing_column_report name col s"
  using assms
  by (simp add: load_excel_def load_excel_body_def Let_def missing_column_report_def
      console_write_def show_console_def del: check_sheets.simps)

text \<open>
  Claim C7. When a label of \<open>FIELDS\<close> is missing from the columns of the first sheet, or
  of the sheet read as auxiliary data (the second, or the first again), the load is
  refused with a \<open>ValueError\<close> whose message names the sheet and a missing column,
  reported on the console and in a message box. The result is the same whatever the
  cells of the sheets hold and however they would be written as text; both tables and
  the label stay as they were.
\<close>

theorem missing_column_rejects_workbook:
  assumes "file_path \<noteq> []"
      and "aux_df = (case others of [] \<Rightarrow> main_df | second # _ \<Rightarrow> second)"
      and "\<exists>f\<in>set FIELDS. f \<notin> set (columns main_df) \<or> f \<notin> set (columns aux_df)"
  shows "\<exists>name col.
           col \<in> set FIELDS
           \<and> (name = name_main \<and> col \<notin> set (columns main_df)
              \<or> name = name_aux \<and> col \<notin> set (columns aux_df))
           \<and> load_excel str_of file_path (Inr (main_df # others)) s = missing_column_report name col s
           \<and> load_excel str_of' file_path
                (Inr (map (\<lambda>d. d\<lparr>cell := other_cells\<rparr>) (main_df # others))) s
               = missing_column_report name col s
           \<and> table_main (missing_column_report name col s) = table_main s
           \<and> table_aux (missing_column_report name col s) = table_aux s
           \<and> label_text (missing_column_report name col s) = label_text s"
proof -
  from check_sheets_missing [OF assms(3)]
  obtain name col where c: "check_sheets [(columns main_df, name_main), (columns aux_df, name_aux)] = Some (name, col)"
    and f: "col \<in> set FIELDS"
    and m: "name = name_main \<and> col \<notin> set (columns main_df) \<or> name = name_aux \<and> col \<notin> set (columns aux_df)"
    by blast
  have l1: "load_excel str_of file_path (Inr (main_df # others)) s = missing_column_report name col s"
    by (rule load_excel_missing [OF assms(1)]) (use c assms(2) in simp)
  have cols: "columns (case map (\<lambda>d. d\<lparr>cell := other_cells\<rparr>) others of
                         [] \<Rightarrow> main_df\<lparr>cell := other_cells\<rparr> | second # _ \<Rightarrow> second)
                = columns aux_df"
    unfolding assms(2) by (cases others) simp_all
  have l2: "load_excel str_of' file_path
                (Inr (map (\<lambda>d. d\<lparr>cell := other_cells\<rparr>) (main_df # others))) s
               = missing_column_report name col s"
    unfolding list.map
    by (rule load_excel_missing [OF assms(1)]) (use c cols in simp)
  have t: "table_main (missing_column_report name col s) = table_main s
           \<and> table_aux (missing_column_report name col s) = table_aux s
           \<and> label_text (missing_column_report name col s) = label_text s"
    by (simp add: missing_column_report_def show_console_def)
  from f m l1 l2 t show ?thesis by blast
qed

theorem missing_column_rejects_workbook_witness:
  "(\<exists>name col. col \<in> set FIELDS
       \<and> load_excel (\<lambda>v. v) ''survey.xlsx''
            (Inr [example_sheet [f_lon, f_lat, f_depth, f_elev, f_x, f_y]])
            (example_app [example_main_row] [example_aux_row1])
           = missing_column_report name col (example_app [example_main_row] [example_aux_row1]))
   \<and> load_excel (\<lambda>v. v) ''survey.xlsx''
            (Inr [example_sheet [f_lon, f_lat, f_depth, f_elev, f_x, f_y]])
            (example_app [example_main_row] [example_aux_row1])
         = missing_column_report name_main f_z (example_app [example_main_row] [example_aux_row1])
   \<and> table_main (missing_column_report name_main f_z (example_app [example_main_row] [example_aux_row1]))
         = [example_main_row]
   \<and> table_aux (missing_column_report name_main f_z (example_app [example_main_row] [example_aux_row1]))
         = [example_aux_row1]"
proof -
  let ?df = "example_sheet [f_lon, f_lat, f_depth, f_elev, f_x, f_y]"
  let ?s = "example_app [example_main_row] [example_aux_row1]"
  have z: "f_z \<notin> set (columns ?df)"
    by (simp add: example_sheet_def f_lon_def f_lat_def f_depth_def f_elev_def f_x_def f_y_def f_z_def)
  have p: "''survey.xlsx'' \<noteq> []" by simp
  have a: "?df = (case [] of [] \<Rightarrow> ?df | second # _ \<Rightarrow> second)" by simp
  have h: "\<exists>f\<in>set FIELDS. f \<notin> set (columns ?df) \<or> f \<notin> set (columns ?df)"
    using z by (auto simp: FIELDS_def)
  have e: "\<exists>name col. col \<in> set FIELDS
       \<and> load_excel (\<lambda>v. v) ''survey.xlsx'' (Inr [?df]) ?s = missing_column_report name col ?s"
    using missing_column_rejects_workbook [OF p a h, of "\<lambda>v. v" ?s] by blast
  have c: "check_sheets [(columns ?df, name_main), (columns (case [] of [] \<Rightarrow> ?df | second # _ \<Rightarrow> second), name_aux)]
             = Some (name_main, f_z)"
    using z by (simp add: FIELDS_def example_sheet_def)
  have l: "load_excel (\<lambda>v. v) ''survey.xlsx'' (Inr [?df]) ?s = missing_column_report name_main f_z ?s"
    by (rule load_excel_missing [OF p c])
  have t: "table_main (missing_column_report name_main f_z ?s) = [example_main_row]
           \<and> table_aux (missing_column_report name_main f_z ?s) = [example_aux_row1]"
    by (simp add: missing_column_report_def show_console_def example_tables)
  from e l t show ?thesis by blast
qed

end
